theory Spec2Isabelle
  imports Main "HOL-Library.Word" "HOL-Library.Sublist"
begin

section \<open>Exceptions\<close>

text \<open>
  The exception classes that \<^verbatim>\<open>squema.py\<close> raises or lets through.
\<close>

datatype exn_class = AssertionError | ValueError | AttributeError | TypeError | KeyError

section \<open>Types and values\<close>

text \<open>
  A class object: its \<^verbatim>\<open>__name__\<close> and its \<^verbatim>\<open>__bases__\<close>, in declaration order.
\<close>

datatype pytype = PyType (type_name: string) (type_bases: "pytype list")

definition object_t :: pytype where "object_t = PyType ''object'' []"
definition type_t :: pytype where "type_t = PyType ''type'' [object_t]"
definition NoneType_t :: pytype where "NoneType_t = PyType ''NoneType'' [object_t]"
definition int_t :: pytype where "int_t = PyType ''int'' [object_t]"
definition bool_t :: pytype where "bool_t = PyType ''bool'' [int_t]"
definition str_t :: pytype where "str_t = PyType ''str'' [object_t]"
definition dict_t :: pytype where "dict_t = PyType ''dict'' [object_t]"
definition odict_items_t :: pytype where
  "odict_items_t = PyType ''odict_items'' [PyType ''dict_items'' [object_t]]"
definition date_t :: pytype where "date_t = PyType ''date'' [object_t]"

text \<open>\<^verbatim>\<open>UNSET = type('UNSET', (), {'__repr__': lambda self: 'UNSET'})()\<close>: the class of the sentinel.\<close>

definition UNSET_t :: pytype where "UNSET_t = PyType ''UNSET'' [object_t]"

text \<open>\<^verbatim>\<open>class Squema(metaclass=MetaSquema)\<close>: the root schema class.\<close>

definition Squema_t :: pytype where "Squema_t = PyType ''Squema'' [object_t]"

text \<open>
  The values that flow through the module.
  \<^item> \<open>UNSET\<close> is the module's sentinel object.
  \<^item> \<open>PyDict\<close> is a dict with \<^verbatim>\<open>str\<close> keys, in insertion order; \<open>PyItems\<close> is the view that
    \<^verbatim>\<open>OrderedDict.items()\<close> returns.
  \<^item> \<open>PyInst t s vs\<close> is an instance of the schema class \<open>t\<close>, as a value: \<open>s\<close> is
    \<^verbatim>\<open>__config__.strict\<close> of its class and \<open>vs\<close> its \<^verbatim>\<open>__values__\<close> table (what
    \<^verbatim>\<open>items()\<close>, \<^verbatim>\<open>__repr__\<close> and \<^verbatim>\<open>**\<close> read from it).
  \<^item> \<open>PyBuiltinClass n\<close> is the built-in class of name \<open>n\<close> (\<^verbatim>\<open>int\<close>, \<^verbatim>\<open>str\<close>, ...) used as a
    value: its class is \<^verbatim>\<open>type\<close> and \<^verbatim>\<open>repr\<close> of it is \<^verbatim>\<open><class 'n'>\<close>.
  \<^item> \<open>PyObj t r\<close> is any other object (a float, a date, an enum member, ...): its class is
    \<open>t\<close>, it is not a mapping and not a schema instance, it has no \<^verbatim>\<open>__name__\<close>, and
    \<^verbatim>\<open>repr\<close> of it is \<open>r\<close>.
  Strings are over the code points below 256.
\<close>

datatype pyval =
    UNSET
  | PyNone
  | PyBool bool
  | PyInt int
  | PyStr string
  | PyDict "(string \<times> pyval) list"
  | PyItems "(string \<times> pyval) list"
  | PyInst pytype bool "(string \<times> pyval) list"
  | PyBuiltinClass string
  | PyObj pytype string

text \<open>\<^verbatim>\<open>type(value)\<close>.\<close>

fun type_of :: "pyval \<Rightarrow> pytype" where
  "type_of UNSET = UNSET_t"
| "type_of PyNone = NoneType_t"
| "type_of (PyBool b) = bool_t"
| "type_of (PyInt i) = int_t"
| "type_of (PyStr s) = str_t"
| "type_of (PyDict kvs) = dict_t"
| "type_of (PyItems kvs) = odict_items_t"
| "type_of (PyInst t s vs) = t"
| "type_of (PyBuiltinClass n) = type_t"
| "type_of (PyObj t r) = t"

text \<open>\<^verbatim>\<open>issubclass(t, u)\<close>: \<open>u\<close> is \<open>t\<close> or an ancestor of \<open>t\<close>.\<close>

fun issubclass :: "pytype \<Rightarrow> pytype \<Rightarrow> bool" where
  "issubclass (PyType n bs) u = (PyType n bs = u \<or> list_ex (\<lambda>b. issubclass b u) bs)"

definition isinstance :: "pyval \<Rightarrow> pytype \<Rightarrow> bool" where
  "isinstance v t = issubclass (type_of v) t"

subsection \<open>Errors\<close>

text \<open>
  One constructor per \<^verbatim>\<open>raise\<close> site of the module, so that two sites raising the same
  exception class stay distinguishable; the payload is what the message interpolates.
  \<open>PyRaise\<close> is an exception raised by the interpreter itself or by a converter the
  module calls (a failed \<^verbatim>\<open>**\<close> unpacking, a missing attribute, a missing dict key).
\<close>

datatype error =
    ArgsAndKwargs
  | TooManyArguments string
  | InvalidAttribute string string
  | MissingValue "string list"
  | ExpectedType string string string
  | MustBeMapping string pyval
  | NoDecoder string
  | NotAnAttribute string string
  | Immutable string
  | NotAField string string
  | NotAKey string string
  | InvalidFields string
  | NoEncoder string
  | PyRaise exn_class

fun exn_class_of :: "error \<Rightarrow> exn_class" where
  "exn_class_of ArgsAndKwargs = AssertionError"
| "exn_class_of (TooManyArguments c) = ValueError"
| "exn_class_of (InvalidAttribute k c) = AttributeError"
| "exn_class_of (MissingValue ks) = ValueError"
| "exn_class_of (ExpectedType t k a) = ValueError"
| "exn_class_of (MustBeMapping k n) = TypeError"
| "exn_class_of (NoDecoder t) = TypeError"
| "exn_class_of (NotAnAttribute k c) = AttributeError"
| "exn_class_of (Immutable c) = TypeError"
| "exn_class_of (NotAField k c) = ValueError"
| "exn_class_of (NotAKey k c) = KeyError"
| "exn_class_of (InvalidFields c) = ValueError"
| "exn_class_of (NoEncoder t) = TypeError"
| "exn_class_of (PyRaise e) = e"

text \<open>
  \<^verbatim>\<open>value.__name__\<close>. A built-in class has one. A schema instance answers through
  \<^verbatim>\<open>Squema.__getattr__\<close>: with the value of a field of that name, or with the
  \<^verbatim>\<open>AttributeError\<close> that this method raises. No other value has the attribute, and reading
  it raises \<^verbatim>\<open>AttributeError\<close>.
\<close>

fun py_name :: "pyval \<Rightarrow> error + pyval" where
  "py_name (PyBuiltinClass n) = Inr (PyStr n)"
| "py_name (PyInst t s vs) =
     (case map_of vs ''__name__'' of
        Some v \<Rightarrow> Inr v
      | None \<Rightarrow> Inl (NotAnAttribute ''__name__'' (type_name t)))"
| "py_name v = Inl (PyRaise AttributeError)"

section \<open>Ordered dicts\<close>

text \<open>
  A dict is the list of its items in insertion order. \<open>od_set d k v\<close> is \<^verbatim>\<open>d[k] = v\<close>: an
  existing key keeps its position, a new key goes last. \<open>od_update d e\<close> is
  \<^verbatim>\<open>d.update(e)\<close>.
\<close>

fun od_set :: "('k \<times> 'v) list \<Rightarrow> 'k \<Rightarrow> 'v \<Rightarrow> ('k \<times> 'v) list" where
  "od_set [] k v = [(k, v)]"
| "od_set ((k', v') # d) k v = (if k' = k then (k, v) # d else (k', v') # od_set d k v)"

definition od_update :: "('k \<times> 'v) list \<Rightarrow> ('k \<times> 'v) list \<Rightarrow> ('k \<times> 'v) list" where
  "od_update d e = fold (\<lambda>(k, v) d'. od_set d' k v) e d"

definition od_keys :: "('k \<times> 'v) list \<Rightarrow> 'k list" where
  "od_keys d = map fst d"

section \<open>Textual forms of values\<close>

fun join :: "string \<Rightarrow> string list \<Rightarrow> string" where
  "join sep [] = []"
| "join sep [x] = x"
| "join sep (x # y # ys) = x @ sep @ join sep (y # ys)"

definition digit_char :: "nat \<Rightarrow> char" where
  "digit_char n = ''0123456789abcdef'' ! n"

fun dec_nat :: "nat \<Rightarrow> string" where
  "dec_nat n = (if n < 10 then [digit_char n] else dec_nat (n div 10) @ [digit_char (n mod 10)])"

declare dec_nat.simps [simp del]

definition int_repr :: "int \<Rightarrow> string" where
  "int_repr i = (if i < 0 then CHR ''-'' # dec_nat (nat (- i)) else dec_nat (nat i))"

text \<open>
  \<^verbatim>\<open>repr\<close> of a \<^verbatim>\<open>str\<close>: double quotes when the string holds a single quote and no double
  quote, single quotes otherwise; the quote and the backslash are escaped, tab, newline
  and carriage return are written \<^verbatim>\<open>\t \n \r\<close>, other unprintable code points
  \<^verbatim>\<open>\xhh\<close>.
\<close>

definition printable :: "char \<Rightarrow> bool" where
  "printable c = (let n = (of_char c :: nat) in (32 \<le> n \<and> n < 127) \<or> (161 \<le> n \<and> n \<noteq> 173))"

definition escape_char :: "char \<Rightarrow> char \<Rightarrow> string" where
  "escape_char q c =
     (if c = q \<or> c = CHR 0x5C then [CHR 0x5C, c]
      else if c = CHR 0x09 then [CHR 0x5C, CHR ''t'']
      else if c = CHR 0x0A then [CHR 0x5C, CHR ''n'']
      else if c = CHR 0x0D then [CHR 0x5C, CHR ''r'']
      else if printable c then [c]
      else [CHR 0x5C, CHR ''x'', digit_char ((of_char c :: nat) div 16),
            digit_char ((of_char c :: nat) mod 16)])"

definition str_repr :: "string \<Rightarrow> string" where
  "str_repr s =
     (let q = (if CHR 0x27 \<in> set s \<and> CHR 0x22 \<notin> set s then CHR 0x22 else CHR 0x27)
      in q # concat (map (escape_char q) s) @ [q])"

text \<open>
  \<^verbatim>\<open>Squema.items\<close> on a values table, as the list of what it yields. The body of the
  method holds a \<^verbatim>\<open>yield\<close>, so the method is a generator function: in strict mode
  \<^verbatim>\<open>return self.__values__.items()\<close> ends the generator at once and nothing is yielded;
  otherwise the pairs whose value is not the sentinel are yielded, in the order of the
  table.
\<close>

definition items_of :: "bool \<Rightarrow> (string \<times> pyval) list \<Rightarrow> (string \<times> pyval) list" where
  "items_of s vs = (if s then [] else filter (\<lambda>(k, v). v \<noteq> UNSET) vs)"

text \<open>
  \<^verbatim>\<open>repr(value)\<close>. For a schema instance this is \<^verbatim>\<open>Squema.__repr__\<close>:
  \<^verbatim>\<open>values = [f'{k}={repr(v)}' for k, v in self.items()]\<close>,
  \<^verbatim>\<open>f'{self.__class__.__name__}({", ".join(values)})'\<close>.
\<close>

function py_repr :: "pyval \<Rightarrow> string" where
  "py_repr UNSET = ''UNSET''"
| "py_repr PyNone = ''None''"
| "py_repr (PyBool b) = (if b then ''True'' else ''False'')"
| "py_repr (PyInt i) = int_repr i"
| "py_repr (PyStr s) = str_repr s"
| "py_repr (PyDict kvs) =
     ''{'' @ join '', '' (map (\<lambda>(k, v). str_repr k @ '': '' @ py_repr v) kvs) @ ''}''"
| "py_repr (PyItems kvs) =
     ''odict_items(['' @
       join '', '' (map (\<lambda>(k, v). ''('' @ str_repr k @ '', '' @ py_repr v @ '')'') kvs) @ ''])''"
| "py_repr (PyInst t s vs) =
     type_name t @ ''('' @
       join '', '' (map (\<lambda>(k, v). k @ ''='' @ py_repr v) (items_of s vs)) @ '')''"
| "py_repr (PyBuiltinClass n) = ''<class '' @ [CHR 0x27] @ n @ [CHR 0x27] @ ''>''"
| "py_repr (PyObj t r) = r"
  by pat_completeness auto
termination
proof (relation "measure size")
  fix t :: pytype and s :: bool and vs :: "(string \<times> pyval) list" and x :: "string \<times> pyval"
    and k :: string and v :: pyval
  assume "x \<in> set (items_of s vs)" and "(k, v) = x"
  then have "(k, v) \<in> set vs"
    by (auto simp: items_of_def split: if_splits)
  then have "size v < Suc (size_list (size_prod (\<lambda>x. 0) size) vs)"
    by (induction vs) auto
  then show "(v, PyInst t s vs) \<in> measure size"
    by simp
qed (auto simp: less_Suc_eq_le intro: size_list_estimation')

section \<open>Config\<close>

type_synonym pyfun = "pyval \<Rightarrow> error + pyval"

text \<open>
  The objects used as keys of the encoder and decoder registries: a class, a function
  (by name) or a tuple of classes.
\<close>

datatype objkey = TypeKey pytype | FunKey string | TupleKey "pytype list"

type_synonym registry = "(objkey \<times> pyfun) list"

text \<open>A \<^verbatim>\<open>Config\<close> as the schema methods read it: the two flags and the two registries.\<close>

record config =
  strict :: bool
  mutable :: bool
  encoders :: registry
  decoders :: registry

subsection \<open>Construction of a Config, with the dict objects in a store\<close>

text \<open>
  \<^verbatim>\<open>Config.encoders\<close> and \<^verbatim>\<open>Config.decoders\<close> are dict objects shared by the whole
  process, and \<^verbatim>\<open>Config.__init__\<close> calls \<^verbatim>\<open>copy\<close> and \<^verbatim>\<open>update\<close> on dict objects. The
  store maps the address of each dict object to its items; addresses below \<open>top\<close> are
  allocated.
\<close>

record store =
  cells :: "nat \<Rightarrow> registry"
  top :: nat

text \<open>\<^verbatim>\<open>d.copy()\<close>: a new dict object with the items of the dict at \<open>a\<close>; returns its address.\<close>

definition dict_copy :: "store \<Rightarrow> nat \<Rightarrow> store \<times> nat" where
  "dict_copy h a = (h\<lparr>cells := (cells h)(top h := cells h a), top := Suc (top h)\<rparr>, top h)"

text \<open>\<^verbatim>\<open>d.update(e)\<close> on the dict object at \<open>a\<close>, in place.\<close>

definition dict_update :: "store \<Rightarrow> nat \<Rightarrow> registry \<Rightarrow> store" where
  "dict_update h a e = h\<lparr>cells := (cells h)(a := od_update (cells h a) e)\<rparr>"

text \<open>\<^verbatim>\<open>encoders or {}\<close>: the argument is \<^verbatim>\<open>None\<close> or a dict.\<close>

fun or_empty :: "registry option \<Rightarrow> registry" where
  "or_empty None = []"
| "or_empty (Some d) = d"

text \<open>The class attributes \<^verbatim>\<open>Config.encoders\<close> and \<^verbatim>\<open>Config.decoders\<close>: two addresses.\<close>

record config_class =
  class_encoders :: nat
  class_decoders :: nat

text \<open>A \<^verbatim>\<open>Config\<close> object: its instance attributes.\<close>

record config_obj =
  self_strict :: bool
  self_mutable :: bool
  self_encoders :: nat
  self_decoders :: nat

text \<open>
  \<^verbatim>\<open>Config.__init__(self, *, strict, mutable, encoders, decoders)\<close>. When
  \<^verbatim>\<open>self.encoders.copy()\<close> is evaluated the new object has no attribute \<^verbatim>\<open>encoders\<close> of
  its own, so \<^verbatim>\<open>self.encoders\<close> is the class attribute.
\<close>

definition Config_init ::
  "store \<Rightarrow> config_class \<Rightarrow> bool \<Rightarrow> bool \<Rightarrow> registry option \<Rightarrow> registry option
    \<Rightarrow> store \<times> config_obj" where
  "Config_init h K strict' mutable' encoders' decoders' =
     (let (h1, e) = dict_copy h (class_encoders K);
          h2 = dict_update h1 e (or_empty encoders');
          (h3, d) = dict_copy h2 (class_decoders K);
          h4 = dict_update h3 d (or_empty decoders')
      in (h4, \<lparr>self_strict = strict', self_mutable = mutable',
                self_encoders = e, self_decoders = d\<rparr>))"

text \<open>The content of a \<^verbatim>\<open>Config\<close> object in a store.\<close>

definition config_of :: "store \<Rightarrow> config_obj \<Rightarrow> config" where
  "config_of h c = \<lparr>strict = self_strict c, mutable = self_mutable c,
     encoders = cells h (self_encoders c), decoders = cells h (self_decoders c)\<rparr>"

section \<open>Schema classes\<close>

text \<open>
  A schema class as its instances read it: \<open>cls_id\<close>, the identity of the class object
  (what \<^verbatim>\<open>is\<close> compares: two class objects are the same object iff they have the same
  identity), the class object's name and bases,
  \<^verbatim>\<open>__fields__\<close>, \<^verbatim>\<open>__annotations__\<close>, \<^verbatim>\<open>__config__\<close>, and \<open>cls_attrs\<close>, the other
  attributes that attribute lookup finds on the class (its own namespace first, then
  what its bases provide: methods, plain class attributes).

  A declared type (\<open>unit\<close> in \<^verbatim>\<open>__getval__\<close>) is one of
  \<^item> \<open>PlainType t ctor\<close>: a class with \<^verbatim>\<open>type(unit) is type\<close>, \<open>ctor\<close> is the call
    \<^verbatim>\<open>unit(value)\<close>;
  \<^item> \<open>SchemaType c\<close>: a schema class;
  \<^item> \<open>Function n f\<close>: a function object (\<^verbatim>\<open>FunctionType\<close>) of name \<open>n\<close>;
  \<^item> \<open>CallableClass t f\<close>: a class whose metaclass is not \<^verbatim>\<open>type\<close> and that is not a
    schema class (an \<^verbatim>\<open>Enum\<close>), \<open>f\<close> is the call \<^verbatim>\<open>unit(value)\<close>;
  \<^item> \<open>TypeTuple ts\<close>: a tuple of classes, which \<^verbatim>\<open>isinstance\<close> accepts and which is not
    callable.
\<close>

datatype squema_class =
  SquemaClass (cls_id: nat) (cls_type: pytype) (cls_fields: "(string \<times> pyval) list")
    (cls_annotations: "(string \<times> typespec) list") (cls_config: config)
    (cls_attrs: "(string \<times> pyval) list")
and typespec =
    PlainType pytype pyfun
  | SchemaType squema_class
  | Function string pyfun
  | CallableClass pytype pyfun
  | TypeTuple "pytype list"

definition cls_name :: "squema_class \<Rightarrow> string" where
  "cls_name c = type_name (cls_type c)"

subsection \<open>MetaSquema.__new__\<close>








section \<open>Schema instances\<close>

text \<open>
  An instance: its class, its \<^verbatim>\<open>__values__\<close> table, and \<open>inst_dict\<close>, the other entries
  of its \<^verbatim>\<open>__dict__\<close> (what \<^verbatim>\<open>object.__setattr__\<close> attached to it).
\<close>

record squema =
  inst_cls :: squema_class
  inst_values :: "(string \<times> pyval) list"
  inst_dict :: "(string \<times> pyval) list"

text \<open>The instance as a value.\<close>

definition pyval_of :: "squema \<Rightarrow> pyval" where
  "pyval_of self =
     PyInst (cls_type (inst_cls self)) (strict (cls_config (inst_cls self))) (inst_values self)"

text \<open>
  \<^verbatim>\<open>**value\<close> at a call: the keyword arguments, or \<^verbatim>\<open>TypeError\<close> when the value is not a
  mapping. A schema instance has \<^verbatim>\<open>keys\<close> and \<^verbatim>\<open>__getitem__\<close> and unpacks to its items.
\<close>

fun py_kwargs :: "pyval \<Rightarrow> error + (string \<times> pyval) list" where
  "py_kwargs (PyDict kvs) = Inr kvs"
| "py_kwargs (PyInst t s vs) = Inr (items_of s vs)"
| "py_kwargs v = Inl (PyRaise TypeError)"

text \<open>\<^verbatim>\<open>isinstance(unit, FunctionType)\<close>.\<close>

fun is_function :: "typespec \<Rightarrow> bool" where
  "is_function (Function n f) = True"
| "is_function u = False"

text \<open>\<^verbatim>\<open>isinstance(value, unit)\<close> for a unit that is not a function.\<close>

fun isinstance_unit :: "pyval \<Rightarrow> typespec \<Rightarrow> bool" where
  "isinstance_unit v (PlainType t ctor) = isinstance v t"
| "isinstance_unit v (SchemaType c) = isinstance v (cls_type c)"
| "isinstance_unit v (CallableClass t f) = isinstance v t"
| "isinstance_unit v (TypeTuple ts) = list_ex (isinstance v) ts"
| "isinstance_unit v (Function n f) = False"

text \<open>The unit as a key of \<^verbatim>\<open>__config__.decoders\<close>.\<close>

fun unit_key :: "typespec \<Rightarrow> objkey" where
  "unit_key (PlainType t ctor) = TypeKey t"
| "unit_key (SchemaType c) = TypeKey (cls_type c)"
| "unit_key (Function n f) = FunKey n"
| "unit_key (CallableClass t f) = TypeKey t"
| "unit_key (TypeTuple ts) = TupleKey ts"

text \<open>
  A call \<^verbatim>\<open>cls(*args, **kwargs)\<close> binds the new object to the parameter \<^verbatim>\<open>self\<close> of
  \<^verbatim>\<open>__init__(self, *args, **kwargs)\<close>. A keyword named \<^verbatim>\<open>self\<close> is a second value for that
  parameter: the call raises \<^verbatim>\<open>TypeError\<close> and the body does not run.
\<close>

definition binds_self :: "(string \<times> pyval) list \<Rightarrow> bool" where
  "binds_self kwargs = (''self'' \<in> set (od_keys kwargs))"

lemma size_annotation:
  "map_of anns key = Some (SchemaType c') \<Longrightarrow>
     size c' < size_list (size_prod (\<lambda>x. 0) size) anns"
  by (induction anns) (auto split: if_splits)

text \<open>
  \<^verbatim>\<open>Squema.__init__(self, *args, **kwargs)\<close>, its loop over \<^verbatim>\<open>kwargs.items()\<close>
  (\<open>init_loop\<close>, on the values table) and \<^verbatim>\<open>Squema.__getval__(self, key, value)\<close>.
  \<open>Squema_init c args kwargs\<close> is the body run on a new object of class \<open>c\<close>, with
  \<open>args\<close> and \<open>kwargs\<close> as the call has bound them; it returns the object. The call
  itself is \<open>Squema_call\<close> below, and \<^verbatim>\<open>unit(**value)\<close> in \<^verbatim>\<open>__getval__\<close> is such a call.
  \<^verbatim>\<open>__getval__\<close> reads only the class, so it takes the class.
\<close>

function (sequential)
  Squema_init :: "squema_class \<Rightarrow> pyval list \<Rightarrow> (string \<times> pyval) list \<Rightarrow> error + squema"
  and init_loop ::
    "squema_class \<Rightarrow> (string \<times> pyval) list \<Rightarrow> (string \<times> pyval) list
      \<Rightarrow> error + (string \<times> pyval) list"
  and Squema_getval :: "squema_class \<Rightarrow> string \<Rightarrow> pyval \<Rightarrow> error + pyval"
where
  "Squema_init c args kwargs =
     (if args \<noteq> [] \<and> kwargs \<noteq> [] then Inl ArgsAndKwargs
      else if args \<noteq> [] \<and> strict (cls_config c) \<and> length args > length (cls_fields c)
      then Inl (TooManyArguments (cls_name c))
      else
        (case init_loop c
                (if args \<noteq> [] then zip (od_keys (cls_fields c)) args else kwargs)
                (cls_fields c) of
           Inl e \<Rightarrow> Inl e
         | Inr vs \<Rightarrow>
             if strict (cls_config c) \<and> filter (\<lambda>(k, v). v = UNSET) vs \<noteq> []
             then Inl (MissingValue (map fst (filter (\<lambda>(k, v). v = UNSET) vs)))
             else Inr \<lparr>inst_cls = c, inst_values = vs, inst_dict = []\<rparr>))"
| "init_loop c [] vs = Inr vs"
| "init_loop c ((key, v) # kwargs) vs =
     (if key \<in> set (od_keys vs)
      then (case Squema_getval c key v of
              Inl e \<Rightarrow> Inl e
            | Inr x \<Rightarrow> init_loop c kwargs (od_set vs key x))
      else if strict (cls_config c) then Inl (InvalidAttribute key (cls_name c))
      else init_loop c kwargs vs)"
| "Squema_getval c key v =
     (case map_of (cls_annotations c) key of
        None \<Rightarrow> Inl (PyRaise KeyError)
      | Some unit \<Rightarrow>
          if \<not> is_function unit \<and> isinstance_unit v unit then Inr v
          else
            (case map_of (decoders (cls_config c)) (unit_key unit) of
               Some decoder \<Rightarrow> decoder v
             | None \<Rightarrow>
                 (case unit of
                    PlainType t ctor \<Rightarrow>
                      (case ctor v of
                         Inl e \<Rightarrow>
                           if exn_class_of e = ValueError
                           then Inl (ExpectedType (type_name t) key (type_name (type_of v)))
                           else Inl e
                       | Inr x \<Rightarrow> Inr x)
                  | SchemaType c' \<Rightarrow>
                      (case (case py_kwargs v of
                               Inl e \<Rightarrow> Inl e
                             | Inr kw \<Rightarrow>
                                 if binds_self kw then Inl (PyRaise TypeError)
                                 else Squema_init c' [] kw) of
                         Inl e \<Rightarrow>
                           if exn_class_of e = TypeError
                           then (case py_name v of
                                   Inl e' \<Rightarrow> Inl e'
                                 | Inr n \<Rightarrow> Inl (MustBeMapping key n))
                           else Inl e
                       | Inr self \<Rightarrow> Inr (pyval_of self))
                  | Function n f \<Rightarrow> f v
                  | CallableClass t f \<Rightarrow> f v
                  | TypeTuple ts \<Rightarrow> Inl (NoDecoder (type_name (type_of v))))))"
  by pat_completeness auto
termination
proof (relation "inv_image (less_than <*lex*> less_than <*lex*> less_than)
    (\<lambda>x. case x of
       Inl (c, args, kwargs) \<Rightarrow> (size c, 2::nat, 0::nat)
     | Inr (Inl (c, kwargs, vs)) \<Rightarrow> (size c, 1, length kwargs)
     | Inr (Inr (c, key, v)) \<Rightarrow> (size c, 0, 0))")
  fix c :: squema_class and key :: string and v :: pyval and unit :: typespec
    and c' :: squema_class and kw :: "(string \<times> pyval) list"
  assume "map_of (cls_annotations c) key = Some unit" and "unit = SchemaType c'"
  then have "size c' < size c"
    by (cases c) (auto dest: size_annotation)
  then show "(Inl (c', [], kw), Inr (Inr (c, key, v)))
      \<in> inv_image (less_than <*lex*> less_than <*lex*> less_than)
         (\<lambda>x. case x of
            Inl (c, args, kwargs) \<Rightarrow> (size c, 2::nat, 0::nat)
          | Inr (Inl (c, kwargs, vs)) \<Rightarrow> (size c, 1, length kwargs)
          | Inr (Inr (c, key, v)) \<Rightarrow> (size c, 0, 0))"
    by simp
qed auto

text \<open>The call \<^verbatim>\<open>cls(*args, **kwargs)\<close> of a schema class.\<close>

definition Squema_call ::
  "squema_class \<Rightarrow> pyval list \<Rightarrow> (string \<times> pyval) list \<Rightarrow> error + squema" where
  "Squema_call c args kwargs =
     (if binds_self kwargs then Inl (PyRaise TypeError) else Squema_init c args kwargs)"

subsection \<open>Reading an instance\<close>

text \<open>\<^verbatim>\<open>Squema.items\<close>, \<^verbatim>\<open>keys\<close> and \<^verbatim>\<open>__len__\<close>.\<close>

definition Squema_items :: "squema \<Rightarrow> (string \<times> pyval) list" where
  "Squema_items self = items_of (strict (cls_config (inst_cls self))) (inst_values self)"

definition Squema_keys :: "squema \<Rightarrow> string list" where
  "Squema_keys self = map fst (Squema_items self)"

definition Squema_len :: "squema \<Rightarrow> nat" where
  "Squema_len self = length (inst_values self)"

text \<open>
  \<^verbatim>\<open>Squema.__repr__\<close>, \<^verbatim>\<open>__hash__\<close> (\<^verbatim>\<open>hash(repr(self))\<close>) and \<^verbatim>\<open>__eq__\<close>
  (\<^verbatim>\<open>item.__class__ is self.__class__ and hash(item) == hash(self)\<close>). The hash of a
  \<^verbatim>\<open>str\<close> is a machine word (\<^verbatim>\<open>Py_hash_t\<close>, 64 bits wide); the function \<open>h\<close> is the
  interpreter's string hash.
\<close>

definition Squema_repr :: "squema \<Rightarrow> string" where
  "Squema_repr self =
     cls_name (inst_cls self) @ ''('' @
       join '', '' (map (\<lambda>(k, v). k @ ''='' @ py_repr v) (Squema_items self)) @ '')''"

definition Squema_hash :: "(string \<Rightarrow> 64 word) \<Rightarrow> squema \<Rightarrow> 64 word" where
  "Squema_hash h self = h (Squema_repr self)"

definition Squema_eq :: "(string \<Rightarrow> 64 word) \<Rightarrow> squema \<Rightarrow> squema \<Rightarrow> bool" where
  "Squema_eq h self item =
     (cls_id (inst_cls item) = cls_id (inst_cls self)
      \<and> Squema_hash h item = Squema_hash h self)"

text \<open>\<^verbatim>\<open>Squema.__getattr__\<close>, the hook that attribute lookup calls when it finds nothing.\<close>

definition Squema_getattr :: "squema \<Rightarrow> string \<Rightarrow> error + pyval" where
  "Squema_getattr self key =
     (case map_of (inst_values self) key of
        Some v \<Rightarrow> Inr v
      | None \<Rightarrow> Inl (NotAnAttribute key (cls_name (inst_cls self))))"

text \<open>\<^verbatim>\<open>Squema.__getitem__\<close>.\<close>

definition Squema_getitem :: "squema \<Rightarrow> string \<Rightarrow> error + pyval" where
  "Squema_getitem self key =
     (if key \<in> set (od_keys (inst_values self)) then Squema_getattr self key
      else Inl (NotAKey key (cls_name (inst_cls self))))"

text \<open>
  \<^verbatim>\<open>self.key\<close>: the instance's \<^verbatim>\<open>__dict__\<close> (where \<^verbatim>\<open>__values__\<close> lives), then the class,
  then the hook \<^verbatim>\<open>__getattr__\<close>.
\<close>

definition py_getattr :: "squema \<Rightarrow> string \<Rightarrow> error + pyval" where
  "py_getattr self key =
     (if key = ''__values__'' then Inr (PyDict (inst_values self))
      else
        (case map_of (inst_dict self) key of
           Some v \<Rightarrow> Inr v
         | None \<Rightarrow>
             (case map_of (cls_attrs (inst_cls self)) key of
                Some v \<Rightarrow> Inr v
              | None \<Rightarrow> Squema_getattr self key)))"

subsection \<open>Changing an instance\<close>

text \<open>\<^verbatim>\<open>Squema.__delitem__\<close>.\<close>

definition Squema_delitem :: "squema \<Rightarrow> string \<Rightarrow> error + squema" where
  "Squema_delitem self key =
     (if \<not> mutable (cls_config (inst_cls self))
      then Inl (Immutable (cls_name (inst_cls self)))
      else Inr (self\<lparr>inst_values := od_set (inst_values self) key UNSET\<rparr>))"

text \<open>
  \<^verbatim>\<open>del self.key\<close>. The class defines no \<^verbatim>\<open>__delattr__\<close>, so this is
  \<^verbatim>\<open>object.__delattr__\<close>: the entry is removed from the instance's \<^verbatim>\<open>__dict__\<close>, and
  \<^verbatim>\<open>AttributeError\<close> is raised when it has none of that name. Removing \<^verbatim>\<open>__values__\<close>
  leaves the instance with the empty \<^verbatim>\<open>__values__\<close> of its class.
\<close>

definition py_delattr :: "squema \<Rightarrow> string \<Rightarrow> error + squema" where
  "py_delattr self key =
     (if key = ''__values__'' then Inr (self\<lparr>inst_values := []\<rparr>)
      else if key \<in> set (od_keys (inst_dict self))
      then Inr (self\<lparr>inst_dict := filter (\<lambda>(k, v). k \<noteq> key) (inst_dict self)\<rparr>)
      else Inl (PyRaise AttributeError))"

text \<open>\<^verbatim>\<open>Squema.copy\<close>: \<^verbatim>\<open>self.__class__(**self.__values__.items())\<close>.\<close>

definition Squema_copy :: "squema \<Rightarrow> error + squema" where
  "Squema_copy self =
     (case py_kwargs (PyItems (inst_values self)) of
        Inl e \<Rightarrow> Inl e
      | Inr kw \<Rightarrow> Squema_call (inst_cls self) [] kw)"

text \<open>\<^verbatim>\<open>Squema.update\<close>.\<close>

definition Squema_update :: "squema \<Rightarrow> (string \<times> pyval) list \<Rightarrow> error + squema" where
  "Squema_update self data =
     (let vs = filter (\<lambda>(k, v). k \<in> set (od_keys (inst_values self))) data
      in if strict (cls_config (inst_cls self)) \<and> length data \<noteq> length vs
         then Inl (InvalidFields (cls_name (inst_cls self)))
         else Inr (self\<lparr>inst_values := od_update (inst_values self) vs\<rparr>))"

subsection \<open>Encoding\<close>

text \<open>
  \<^verbatim>\<open>bases(item)\<close>, as the list of what the generator yields. In the loop body the
  statement \<^verbatim>\<open>bases(base)\<close> creates a generator object and drops it: nothing iterates it,
  so it yields nothing here.
\<close>

fun bases_loop :: "pytype list \<Rightarrow> pytype list" where
  "bases_loop [] = []"
| "bases_loop (b # bs) = b # bases_loop bs"

definition bases :: "pytype \<Rightarrow> pytype list" where
  "bases item = bases_loop (type_bases item)"

text \<open>The \<^verbatim>\<open>for base in bases(type(value))\<close> loop of \<^verbatim>\<open>encode\<close> and the \<^verbatim>\<open>raise\<close> after it.\<close>

fun encode_bases :: "registry \<Rightarrow> pytype list \<Rightarrow> pyval \<Rightarrow> error + pyval" where
  "encode_bases enc [] v = Inl (NoEncoder (type_name (type_of v)))"
| "encode_bases enc (b # bs) v =
     (case map_of enc (TypeKey b) of
        Some f \<Rightarrow> f v
      | None \<Rightarrow> encode_bases enc bs v)"

text \<open>\<^verbatim>\<open>isinstance(value, Squema)\<close>.\<close>

fun is_squema :: "pyval \<Rightarrow> bool" where
  "is_squema (PyInst t s vs) = True"
| "is_squema v = False"

text \<open>\<^verbatim>\<open>value.items()\<close> of a schema instance, as \<^verbatim>\<open>dict(...)\<close> receives it.\<close>

fun inst_items :: "pyval \<Rightarrow> (string \<times> pyval) list" where
  "inst_items (PyInst t s vs) = items_of s vs"
| "inst_items v = []"

text \<open>\<^verbatim>\<open>Squema.encode(cls, value)\<close>.\<close>

definition Squema_encode :: "squema_class \<Rightarrow> pyval \<Rightarrow> error + pyval" where
  "Squema_encode cls v =
     (case map_of (encoders (cls_config cls)) (TypeKey (type_of v)) of
        Some f \<Rightarrow> f v
      | None \<Rightarrow>
          if is_squema v then Inr (PyDict (inst_items v))
          else encode_bases (encoders (cls_config cls)) (bases (type_of v)) v)"

section \<open>Sample classes\<close>

text \<open>
  Classes of the test module, each a class object of its own identity. The call of the
  built-in constructor (\<^verbatim>\<open>bool(value)\<close>,
  \<^verbatim>\<open>int(value)\<close>) and the class's \<^verbatim>\<open>__config__\<close> are parameters.
  \<^verbatim>\<open>class Entity(Squema): boolean: bool\<close>, \<^verbatim>\<open>class Model(Squema): number: int\<close>, and a
  class with one field whose declared type is another schema class.
\<close>

definition Entity :: "pyfun \<Rightarrow> config \<Rightarrow> squema_class" where
  "Entity bool_call cfg =
     SquemaClass 1 (PyType ''Entity'' [Squema_t]) [(''boolean'', UNSET)]
       [(''boolean'', PlainType bool_t bool_call)] cfg []"

definition Model :: "pyfun \<Rightarrow> config \<Rightarrow> squema_class" where
  "Model int_call cfg =
     SquemaClass 2 (PyType ''Model'' [Squema_t]) [(''number'', UNSET)]
       [(''number'', PlainType int_t int_call)] cfg []"

definition Holder :: "squema_class \<Rightarrow> config \<Rightarrow> squema_class" where
  "Holder c cfg =
     SquemaClass 3 (PyType ''Holder'' [Squema_t]) [(''entity'', UNSET)]
       [(''entity'', SchemaType c)] cfg []"



text \<open>
  The store once the module is loaded: the dict of \<^verbatim>\<open>Config.encoders\<close> at address 0 and
  the dict of \<^verbatim>\<open>Config.decoders\<close> at address 1.
\<close>

definition Config_class :: config_class where
  "Config_class = \<lparr>class_encoders = 0, class_decoders = 1\<rparr>"

definition loaded_store :: "registry \<Rightarrow> registry \<Rightarrow> store" where
  "loaded_store enc dec = \<lparr>cells = (\<lambda>a. if a = 0 then enc else if a = 1 then dec else []), top = 2\<rparr>"

section \<open>Key sequences\<close>


section \<open>Properties\<close>

declare Squema_init.simps [simp del] Squema_getval.simps [simp del]

lemmas sample_simps = Entity_def Model_def Holder_def od_keys_def isinstance_def cls_name_def
  bool_t_def int_t_def object_t_def Squema_t_def NoneType_t_def dict_t_def type_t_def
  str_t_def date_t_def items_of_def pyval_of_def

subsection \<open>Positional construction\<close>






subsection \<open>copy\<close>

text \<open>
  C1. \<^verbatim>\<open>copy()\<close> unpacks the items view of the values table with \<^verbatim>\<open>**\<close>; the view is not a
  mapping, so the call raises \<^verbatim>\<open>TypeError\<close> for every instance and no copy is made.
\<close>

theorem copy_raises: "Squema_copy self = Inl (PyRaise TypeError)"
  by (simp add: Squema_copy_def)

subsection \<open>encode\<close>

text \<open>
  C3. With an encoder registered for \<^verbatim>\<open>date\<close>, a value of a class derived from \<^verbatim>\<open>date\<close>
  is encoded by that encoder, and a value of a class derived from that subclass is
  refused: \<^verbatim>\<open>bases\<close> yields the direct bases only.
\<close>

theorem encode_second_level:
  "Squema_encode
     (Entity ctor \<lparr>strict = s, mutable = m, encoders = [(TypeKey date_t, f)], decoders = dec\<rparr>)
     (PyObj (PyType ''MyDate'' [date_t]) r) = f (PyObj (PyType ''MyDate'' [date_t]) r)
   \<and> Squema_encode
     (Entity ctor \<lparr>strict = s, mutable = m, encoders = [(TypeKey date_t, f)], decoders = dec\<rparr>)
     (PyObj (PyType ''MyDate2'' [PyType ''MyDate'' [date_t]]) r) = Inl (NoEncoder ''MyDate2'')"
  by (simp add: Squema_encode_def bases_def sample_simps)

subsection \<open>The keys of the values table\<close>

text \<open>
  C4. On the mutable instance \<^verbatim>\<open>Model(1)\<close>, mapping-style deletion of a name that is not
  a field adds the name to the values table: the table then has a key that
  \<^verbatim>\<open>__fields__\<close> has not. Mapping-style get of the same name checks that the name is a
  key and raises \<^verbatim>\<open>KeyError\<close>.
\<close>

theorem delitem_adds_key:
  "Squema_init (Model ctor \<lparr>strict = s, mutable = True, encoders = enc, decoders = dec\<rparr>)
     [PyInt 1] []
   = Inr \<lparr>inst_cls = Model ctor \<lparr>strict = s, mutable = True, encoders = enc, decoders = dec\<rparr>,
          inst_values = [(''number'', PyInt 1)], inst_dict = []\<rparr>
   \<and> Squema_delitem
     \<lparr>inst_cls = Model ctor \<lparr>strict = s, mutable = True, encoders = enc, decoders = dec\<rparr>,
      inst_values = [(''number'', PyInt 1)], inst_dict = []\<rparr> ''other''
   = Inr \<lparr>inst_cls = Model ctor \<lparr>strict = s, mutable = True, encoders = enc, decoders = dec\<rparr>,
          inst_values = [(''number'', PyInt 1), (''other'', UNSET)], inst_dict = []\<rparr>
   \<and> od_keys (cls_fields
         (Model ctor \<lparr>strict = s, mutable = True, encoders = enc, decoders = dec\<rparr>))
     = [''number'']
   \<and> Squema_getitem
     \<lparr>inst_cls = Model ctor \<lparr>strict = s, mutable = True, encoders = enc, decoders = dec\<rparr>,
      inst_values = [(''number'', PyInt 1)], inst_dict = []\<rparr> ''other''
   = Inl (NotAKey ''other'' ''Model'')"
  by (simp add: Squema_init.simps Squema_getval.simps Squema_delitem_def Squema_getitem_def
      sample_simps)

subsection \<open>Nested schema coercion\<close>

text \<open>
  C8. For a field whose declared type is the schema class \<^verbatim>\<open>Entity\<close>, a dict is coerced
  to the nested instance built from it, and the integer 5 makes the handler of the
  failed call read \<^verbatim>\<open>value.__name__\<close>, which raises \<^verbatim>\<open>AttributeError\<close>; the class \<^verbatim>\<open>int\<close>,
  which has a \<^verbatim>\<open>__name__\<close>, gets the must-be-a-mapping \<^verbatim>\<open>TypeError\<close>.
\<close>

theorem nested_non_mapping:
  "Squema_getval
     (Holder (Entity ctor \<lparr>strict = False, mutable = m', encoders = enc', decoders = dec'\<rparr>)
        \<lparr>strict = s, mutable = m, encoders = enc, decoders = []\<rparr>)
     ''entity'' (PyDict [(''boolean'', PyBool True)])
   = Inr (PyInst (PyType ''Entity'' [Squema_t]) False [(''boolean'', PyBool True)])
   \<and> Squema_getval
     (Holder (Entity ctor \<lparr>strict = False, mutable = m', encoders = enc', decoders = dec'\<rparr>)
        \<lparr>strict = s, mutable = m, encoders = enc, decoders = []\<rparr>)
     ''entity'' (PyInt 5)
   = Inl (PyRaise AttributeError)
   \<and> Squema_getval
     (Holder (Entity ctor \<lparr>strict = False, mutable = m', encoders = enc', decoders = dec'\<rparr>)
        \<lparr>strict = s, mutable = m, encoders = enc, decoders = []\<rparr>)
     ''entity'' (PyBuiltinClass ''int'')
   = Inl (MustBeMapping ''entity'' (PyStr ''int''))"
  by (simp add: Squema_init.simps Squema_getval.simps binds_self_def sample_simps)

subsection \<open>Field order\<close>

lemma od_keys_od_set:
  "od_keys (od_set d k v) = (if k \<in> set (od_keys d) then od_keys d else od_keys d @ [k])"
  unfolding od_keys_def by (induction d) (auto simp: rev_image_eqI)

lemma map_of_od_set: "map_of (od_set d k v) = (map_of d)(k \<mapsto> v)"
  by (induction d) (auto simp: fun_eq_iff)









lemma init_loop_keys:
  "init_loop c kw vs = Inr vs' \<Longrightarrow> od_keys vs' = od_keys vs"
proof (induction kw arbitrary: vs)
  case Nil
  then show ?case by (simp)
next
  case (Cons p kw)
  obtain key v where p: "p = (key, v)" by (cases p)
  show ?case
  proof (cases "key \<in> set (od_keys vs)")
    case True
    with Cons.prems p obtain x where x: "Squema_getval c key v = Inr x"
      and l: "init_loop c kw (od_set vs key x) = Inr vs'"
      by (auto split: sum.splits)
    from Cons.IH[OF l] True show ?thesis by (simp add: od_keys_od_set)
  next
    case False
    with Cons.prems p have "init_loop c kw vs = Inr vs'"
      by (auto split: if_splits)
    then show ?thesis by (rule Cons.IH)
  qed
qed

lemma init_keys:
  "Squema_init c args kwargs = Inr self \<Longrightarrow>
     inst_cls self = c \<and> inst_dict self = [] \<and> od_keys (inst_values self) = od_keys (cls_fields c)"
  by (auto simp: Squema_init.simps split: if_splits sum.splits dest: init_loop_keys)


lemma call_keys:
  "Squema_call c args kwargs = Inr self \<Longrightarrow>
     inst_cls self = c \<and> inst_dict self = [] \<and> od_keys (inst_values self) = od_keys (cls_fields c)"
  by (auto simp: Squema_call_def split: if_splits dest: init_keys)








subsection \<open>Config registries\<close>

lemma map_of_od_update:
  "distinct (od_keys e) \<Longrightarrow> map_of (od_update d e) = map_of d ++ map_of e"
proof (induction e arbitrary: d)
  case Nil
  show ?case by (simp add: od_update_def)
next
  case (Cons p e)
  obtain k v where p: "p = (k, v)" by (cases p)
  have "od_update d (p # e) = od_update (od_set d k v) e"
    by (simp add: od_update_def p)
  moreover have "map_of e k = None" and "distinct (od_keys e)"
    using Cons.prems by (auto simp: p od_keys_def map_of_eq_None_iff)
  ultimately show ?case
    using Cons.IH[of "od_set d k v"]
    by (auto simp: p map_of_od_set fun_eq_iff map_add_def split: option.splits)
qed

text \<open>
  C9. Constructing a \<^verbatim>\<open>Config\<close> leaves every dict object that existed before unchanged,
  the class-level \<^verbatim>\<open>encoders\<close> and \<^verbatim>\<open>decoders\<close> among them; the registries of the new
  object are two new dict objects, each the class-level default updated with the
  supplied dict: a supplied entry is in it, and a default entry that is not overridden
  stays in it. The class-level dicts are allocated objects, and the supplied dicts have
  distinct keys.
\<close>

theorem config_copies_defaults:
  assumes "class_encoders K < top h" and "class_decoders K < top h"
    and "distinct (od_keys (or_empty enc))" and "distinct (od_keys (or_empty dec))"
    and "Config_init h K s m enc dec = (h', cfg)"
  shows "(\<forall>a. a < top h \<longrightarrow> cells h' a = cells h a)
       \<and> cells h' (class_encoders K) = cells h (class_encoders K)
       \<and> cells h' (class_decoders K) = cells h (class_decoders K)
       \<and> top h \<le> self_encoders cfg \<and> top h \<le> self_decoders cfg
       \<and> self_encoders cfg \<noteq> self_decoders cfg
       \<and> cells h' (self_encoders cfg) = od_update (cells h (class_encoders K)) (or_empty enc)
       \<and> cells h' (self_decoders cfg) = od_update (cells h (class_decoders K)) (or_empty dec)
       \<and> (\<forall>k. map_of (cells h' (self_encoders cfg)) k
              = (case map_of (or_empty enc) k of
                   Some f \<Rightarrow> Some f
                 | None \<Rightarrow> map_of (cells h (class_encoders K)) k))
       \<and> (\<forall>k. map_of (cells h' (self_decoders cfg)) k
              = (case map_of (or_empty dec) k of
                   Some f \<Rightarrow> Some f
                 | None \<Rightarrow> map_of (cells h (class_decoders K)) k))
       \<and> self_strict cfg = s \<and> self_mutable cfg = m"
  using assms
  by (auto simp: Config_init_def dict_copy_def dict_update_def Let_def map_of_od_update
      map_add_def split: option.splits)


theorem config_copies_defaults_witness:
  "\<forall>f g e.
     class_encoders Config_class < top (loaded_store [(TypeKey date_t, f)] [(TypeKey date_t, g)])
   \<and> class_decoders Config_class < top (loaded_store [(TypeKey date_t, f)] [(TypeKey date_t, g)])
   \<and> distinct (od_keys (or_empty (Some [(TypeKey int_t, e)])))
   \<and> distinct (od_keys (or_empty (None :: registry option)))
   \<and> cells (fst (Config_init (loaded_store [(TypeKey date_t, f)] [(TypeKey date_t, g)])
                 Config_class False True (Some [(TypeKey int_t, e)]) None)) 0
       = [(TypeKey date_t, f)]
   \<and> cells (fst (Config_init (loaded_store [(TypeKey date_t, f)] [(TypeKey date_t, g)])
                 Config_class False True (Some [(TypeKey int_t, e)]) None)) 1
       = [(TypeKey date_t, g)]
   \<and> config_of
        (fst (Config_init (loaded_store [(TypeKey date_t, f)] [(TypeKey date_t, g)])
                 Config_class False True (Some [(TypeKey int_t, e)]) None))
        (snd (Config_init (loaded_store [(TypeKey date_t, f)] [(TypeKey date_t, g)])
                 Config_class False True (Some [(TypeKey int_t, e)]) None))
       = \<lparr>strict = False, mutable = True,
          encoders = [(TypeKey date_t, f), (TypeKey int_t, e)],
          decoders = [(TypeKey date_t, g)]\<rparr>"
proof (intro allI)
  fix f g e :: pyfun
  let ?h = "loaded_store [(TypeKey date_t, f)] [(TypeKey date_t, g)]"
  let ?r = "Config_init ?h Config_class False True (Some [(TypeKey int_t, e)]) None"
  have a: "class_encoders Config_class < top ?h" and b: "class_decoders Config_class < top ?h"
    by (simp_all add: Config_class_def loaded_store_def)
  have c: "distinct (od_keys (or_empty (Some [(TypeKey int_t, e)])))"
    and d: "distinct (od_keys (or_empty (None :: registry option)))"
    by (simp_all add: od_keys_def)
  have r: "?r = (fst ?r, snd ?r)" by simp
  note t = config_copies_defaults[OF a b c d r]
  have e0: "cells (fst ?r) 0 = [(TypeKey date_t, f)]"
    using t by (simp add: Config_class_def loaded_store_def)
  have e1: "cells (fst ?r) 1 = [(TypeKey date_t, g)]"
    using t by (simp add: Config_class_def loaded_store_def)
  have cf: "config_of (fst ?r) (snd ?r)
      = \<lparr>strict = False, mutable = True,
         encoders = [(TypeKey date_t, f), (TypeKey int_t, e)],
         decoders = [(TypeKey date_t, g)]\<rparr>"
    using t by (simp add: config_of_def Config_class_def loaded_store_def od_update_def
        date_t_def int_t_def)
  show "class_encoders Config_class < top ?h \<and> class_decoders Config_class < top ?h
      \<and> distinct (od_keys (or_empty (Some [(TypeKey int_t, e)])))
      \<and> distinct (od_keys (or_empty (None :: registry option)))
      \<and> cells (fst ?r) 0 = [(TypeKey date_t, f)]
      \<and> cells (fst ?r) 1 = [(TypeKey date_t, g)]
      \<and> config_of (fst ?r) (snd ?r)
        = \<lparr>strict = False, mutable = True,
           encoders = [(TypeKey date_t, f), (TypeKey int_t, e)],
           decoders = [(TypeKey date_t, g)]\<rparr>"
    using a b c d e0 e1 cf by simp
qed


subsection \<open>Unknown names at construction\<close>

lemma init_loop_drop:
  assumes "\<not> strict (cls_config c)" and "key \<notin> set (od_keys vs)"
  shows "init_loop c (kw1 @ (key, v) # kw2) vs = init_loop c (kw1 @ kw2) vs"
  using assms(2)
proof (induction kw1 arbitrary: vs)
  case Nil
  then show ?case using assms(1) by simp
next
  case (Cons p kw1)
  obtain k x where p: "p = (k, x)" by (cases p)
  have "key \<notin> set (od_keys (od_set vs k y))" if "k \<in> set (od_keys vs)" for y
    using that Cons.prems by (simp add: od_keys_od_set)
  then show ?case
    using Cons by (auto simp: p split: sum.splits)
qed

lemma entity_extra:
  "Squema_call (Entity ctor \<lparr>strict = False, mutable = m, encoders = enc, decoders = dec\<rparr>) []
     [(''boolean'', PyBool True), (''extra'', PyBool True)] =
   Inr \<lparr>inst_cls = Entity ctor \<lparr>strict = False, mutable = m, encoders = enc, decoders = dec\<rparr>,
        inst_values = [(''boolean'', PyBool True)], inst_dict = []\<rparr>"
  by (simp add: Squema_call_def binds_self_def Squema_init.simps Squema_getval.simps sample_simps)

text \<open>
  C2, as stated, fails: \<^verbatim>\<open>Entity(boolean=True, extra=True)\<close> in non-strict mode succeeds,
  nothing is attached to the instance, and \<^verbatim>\<open>instance.extra\<close> raises \<^verbatim>\<open>AttributeError\<close>
  instead of returning the supplied value.
\<close>

theorem unknown_name_not_attached:
  "\<forall>ctor enc dec.
     Squema_call (Entity ctor \<lparr>strict = False, mutable = False, encoders = enc, decoders = dec\<rparr>) []
       [(''boolean'', PyBool True), (''extra'', PyBool True)]
     = Inr \<lparr>inst_cls = Entity ctor \<lparr>strict = False, mutable = False, encoders = enc, decoders = dec\<rparr>,
          inst_values = [(''boolean'', PyBool True)], inst_dict = []\<rparr>
   \<and> py_getattr
       \<lparr>inst_cls = Entity ctor \<lparr>strict = False, mutable = False, encoders = enc, decoders = dec\<rparr>,
        inst_values = [(''boolean'', PyBool True)], inst_dict = []\<rparr> ''extra''
     = Inl (NotAnAttribute ''extra'' ''Entity'')"
  by (simp add: entity_extra) (simp add: py_getattr_def Squema_getattr_def sample_simps)

text \<open>
  C2, amended. In non-strict mode a named value whose name is not a declared field and is
  not \<^verbatim>\<open>self\<close> is dropped: the call is the one without it. When it succeeds nothing is
  attached to the instance, the name is absent from iteration, mapping-style get of it
  raises the not-a-key \<^verbatim>\<open>KeyError\<close>, the hook \<^verbatim>\<open>__getattr__\<close> raises the not-an-attribute
  \<^verbatim>\<open>AttributeError\<close> for it, and so does attribute-style get unless the class has an
  attribute of that name. A named value of name \<^verbatim>\<open>self\<close> makes the call raise
  \<^verbatim>\<open>TypeError\<close>.
\<close>

theorem unknown_name_dropped:
  assumes "\<not> strict (cls_config c)" and "key \<notin> set (od_keys (cls_fields c))"
    and "key \<noteq> ''self''"
  shows "Squema_call c [] (kw1 @ (key, v) # kw2) = Squema_call c [] (kw1 @ kw2)
       \<and> (\<forall>self. Squema_call c [] (kw1 @ (key, v) # kw2) = Inr self \<longrightarrow>
             key \<notin> set (Squema_keys self)
           \<and> inst_dict self = []
           \<and> Squema_getitem self key = Inl (NotAKey key (cls_name c))
           \<and> Squema_getattr self key = Inl (NotAnAttribute key (cls_name c))
           \<and> (key \<noteq> ''__values__'' \<and> map_of (cls_attrs c) key = None \<longrightarrow>
                py_getattr self key = Inl (NotAnAttribute key (cls_name c))))
       \<and> Squema_call c [] (kw1 @ (''self'', v) # kw2) = Inl (PyRaise TypeError)"
proof -
  have b: "binds_self (kw1 @ (key, v) # kw2) = binds_self (kw1 @ kw2)"
    using assms(3) by (auto simp: binds_self_def od_keys_def)
  have "Squema_init c [] (kw1 @ (key, v) # kw2) = Squema_init c [] (kw1 @ kw2)"
    using init_loop_drop[OF assms(1,2), of kw1 v kw2] by (simp add: Squema_init.simps)
  then have eq: "Squema_call c [] (kw1 @ (key, v) # kw2) = Squema_call c [] (kw1 @ kw2)"
    using b by (simp add: Squema_call_def)
  have slf: "Squema_call c [] (kw1 @ (''self'', v) # kw2) = Inl (PyRaise TypeError)"
    by (simp add: Squema_call_def binds_self_def od_keys_def)
  have rest: "key \<notin> set (Squema_keys self)
           \<and> inst_dict self = []
           \<and> Squema_getitem self key = Inl (NotAKey key (cls_name c))
           \<and> Squema_getattr self key = Inl (NotAnAttribute key (cls_name c))
           \<and> (key \<noteq> ''__values__'' \<and> map_of (cls_attrs c) key = None \<longrightarrow>
                py_getattr self key = Inl (NotAnAttribute key (cls_name c)))"
    if ok: "Squema_call c [] (kw1 @ (key, v) # kw2) = Inr self" for self
  proof -
    from call_keys[OF ok] have ic: "inst_cls self = c" and dict: "inst_dict self = []"
      and ks: "od_keys (inst_values self) = od_keys (cls_fields c)"
      by simp_all
    have notin: "key \<notin> set (od_keys (inst_values self))"
      using assms(2) ks by simp
    then have none: "map_of (inst_values self) key = None"
      by (simp add: od_keys_def map_of_eq_None_iff)
    have "set (Squema_keys self) \<subseteq> set (od_keys (inst_values self))"
      by (auto simp: Squema_keys_def Squema_items_def items_of_def od_keys_def)
    then have k: "key \<notin> set (Squema_keys self)"
      using notin by blast
    have gi: "Squema_getitem self key = Inl (NotAKey key (cls_name c))"
      using notin by (simp add: Squema_getitem_def ic)
    have ga: "Squema_getattr self key = Inl (NotAnAttribute key (cls_name c))"
      using none by (simp add: Squema_getattr_def ic)
    have pa: "key \<noteq> ''__values__'' \<and> map_of (cls_attrs c) key = None \<longrightarrow>
                py_getattr self key = Inl (NotAnAttribute key (cls_name c))"
      using ga by (simp add: py_getattr_def dict ic)
    show ?thesis using k dict gi ga pa by simp
  qed
  show ?thesis using eq rest slf by blast
qed

theorem unknown_name_dropped_witness:
  "\<forall>ctor enc dec.
     \<not> strict (cls_config (Entity ctor \<lparr>strict = False, mutable = False, encoders = enc, decoders = dec\<rparr>))
   \<and> ''extra'' \<notin> set (od_keys (cls_fields
        (Entity ctor \<lparr>strict = False, mutable = False, encoders = enc, decoders = dec\<rparr>)))
   \<and> ''extra'' \<noteq> ''self''
   \<and> Squema_call (Entity ctor \<lparr>strict = False, mutable = False, encoders = enc, decoders = dec\<rparr>) []
       ([(''boolean'', PyBool True)] @ (''extra'', PyBool True) # [])
     = Squema_call (Entity ctor \<lparr>strict = False, mutable = False, encoders = enc, decoders = dec\<rparr>) []
       ([(''boolean'', PyBool True)] @ [])
   \<and> Squema_getitem
       \<lparr>inst_cls = Entity ctor \<lparr>strict = False, mutable = False, encoders = enc, decoders = dec\<rparr>,
        inst_values = [(''boolean'', PyBool True)], inst_dict = []\<rparr> ''extra''
     = Inl (NotAKey ''extra'' ''Entity'')"
proof (intro allI)
  fix ctor enc dec
  let ?c = "Entity ctor \<lparr>strict = False, mutable = False, encoders = enc, decoders = dec\<rparr>"
  let ?self = "\<lparr>inst_cls = ?c, inst_values = [(''boolean'', PyBool True)], inst_dict = []\<rparr>"
  have a: "\<not> strict (cls_config ?c)" by (simp add: Entity_def)
  have b: "''extra'' \<notin> set (od_keys (cls_fields ?c))" by (simp add: Entity_def od_keys_def)
  have s: "''extra'' \<noteq> ''self''" by simp
  note t = unknown_name_dropped[OF a b s, of "[(''boolean'', PyBool True)]" "PyBool True" "[]"]
  have i: "Squema_call ?c [] ([(''boolean'', PyBool True)] @ (''extra'', PyBool True) # []) = Inr ?self"
    using entity_extra[of ctor False enc dec] by simp
  have n: "cls_name ?c = ''Entity''" by (simp add: Entity_def cls_name_def)
  have g: "Squema_getitem ?self ''extra'' = Inl (NotAKey ''extra'' ''Entity'')"
    using t i n by simp
  show "\<not> strict (cls_config ?c) \<and> ''extra'' \<notin> set (od_keys (cls_fields ?c))
      \<and> ''extra'' \<noteq> ''self''
      \<and> Squema_call ?c [] ([(''boolean'', PyBool True)] @ (''extra'', PyBool True) # [])
        = Squema_call ?c [] ([(''boolean'', PyBool True)] @ [])
      \<and> Squema_getitem ?self ''extra'' = Inl (NotAKey ''extra'' ''Entity'')"
    using a b s t g by blast
qed

subsection \<open>Deletion\<close>

lemma model_init:
  "Squema_init (Model ctor \<lparr>strict = s, mutable = m, encoders = enc, decoders = dec\<rparr>)
     [PyInt 1] [] =
   Inr \<lparr>inst_cls = Model ctor \<lparr>strict = s, mutable = m, encoders = enc, decoders = dec\<rparr>,
        inst_values = [(''number'', PyInt 1)], inst_dict = []\<rparr>"
  by (simp add: Squema_init.simps Squema_getval.simps sample_simps)

text \<open>
  C5, as stated, fails: on the mutable instance \<^verbatim>\<open>Model(1)\<close> the attribute-style deletion
  \<^verbatim>\<open>del instance.number\<close> of the declared field raises \<^verbatim>\<open>AttributeError\<close>.
\<close>

theorem delattr_field_raises:
  "\<forall>ctor enc dec.
     Squema_init (Model ctor \<lparr>strict = False, mutable = True, encoders = enc, decoders = dec\<rparr>)
       [PyInt 1] []
     = Inr \<lparr>inst_cls = Model ctor \<lparr>strict = False, mutable = True, encoders = enc, decoders = dec\<rparr>,
          inst_values = [(''number'', PyInt 1)], inst_dict = []\<rparr>
   \<and> mutable (cls_config (Model ctor \<lparr>strict = False, mutable = True, encoders = enc, decoders = dec\<rparr>))
   \<and> ''number'' \<in> set (od_keys (cls_fields
         (Model ctor \<lparr>strict = False, mutable = True, encoders = enc, decoders = dec\<rparr>)))
   \<and> py_delattr
       \<lparr>inst_cls = Model ctor \<lparr>strict = False, mutable = True, encoders = enc, decoders = dec\<rparr>,
        inst_values = [(''number'', PyInt 1)], inst_dict = []\<rparr> ''number''
     = Inl (PyRaise AttributeError)"
  by (simp add: model_init) (simp add: py_delattr_def sample_simps)

text \<open>
  C5, amended. For an instance whose values table has the keys of \<^verbatim>\<open>__fields__\<close>,
  mapping-style deletion of a declared field succeeds when the policy is mutable: the
  field then holds the sentinel, every other entry, the keys of the table and its length
  are unchanged. When the policy is not mutable it raises the immutability
  \<^verbatim>\<open>TypeError\<close>. Attribute-style deletion of a declared field is the default one of
  objects: it raises \<^verbatim>\<open>AttributeError\<close> under either policy, the field not being an entry
  of the instance's \<^verbatim>\<open>__dict__\<close>.
\<close>

theorem delitem_field:
  assumes "od_keys (inst_values self) = od_keys (cls_fields (inst_cls self))"
    and "key \<in> set (od_keys (cls_fields (inst_cls self)))"
  shows "(mutable (cls_config (inst_cls self)) \<longrightarrow>
           (\<exists>self'. Squema_delitem self key = Inr self'
              \<and> map_of (inst_values self') key = Some UNSET
              \<and> (\<forall>k. k \<noteq> key \<longrightarrow> map_of (inst_values self') k = map_of (inst_values self) k)
              \<and> od_keys (inst_values self') = od_keys (cls_fields (inst_cls self))
              \<and> Squema_len self' = Squema_len self
              \<and> inst_cls self' = inst_cls self \<and> inst_dict self' = inst_dict self))
       \<and> (\<not> mutable (cls_config (inst_cls self)) \<longrightarrow>
           Squema_delitem self key = Inl (Immutable (cls_name (inst_cls self))))
       \<and> (key \<noteq> ''__values__'' \<and> key \<notin> set (od_keys (inst_dict self)) \<longrightarrow>
           py_delattr self key = Inl (PyRaise AttributeError))"
proof -
  have k: "od_keys (od_set (inst_values self) key UNSET) = od_keys (cls_fields (inst_cls self))"
    using assms by (simp add: od_keys_od_set)
  then have l: "length (od_set (inst_values self) key UNSET) = length (inst_values self)"
    using assms(1) by (metis length_map od_keys_def)
  show ?thesis
    using k l by (simp add: Squema_delitem_def py_delattr_def map_of_od_set Squema_len_def)
qed

theorem delitem_field_witness:
  "\<forall>ctor enc dec.
     od_keys (inst_values
       \<lparr>inst_cls = Model ctor \<lparr>strict = False, mutable = True, encoders = enc, decoders = dec\<rparr>,
        inst_values = [(''number'', PyInt 1)], inst_dict = []\<rparr>)
     = od_keys (cls_fields (inst_cls
       \<lparr>inst_cls = Model ctor \<lparr>strict = False, mutable = True, encoders = enc, decoders = dec\<rparr>,
        inst_values = [(''number'', PyInt 1)], inst_dict = []\<rparr>))
   \<and> ''number'' \<in> set (od_keys (cls_fields (inst_cls
       \<lparr>inst_cls = Model ctor \<lparr>strict = False, mutable = True, encoders = enc, decoders = dec\<rparr>,
        inst_values = [(''number'', PyInt 1)], inst_dict = []\<rparr>)))
   \<and> Squema_delitem
       \<lparr>inst_cls = Model ctor \<lparr>strict = False, mutable = True, encoders = enc, decoders = dec\<rparr>,
        inst_values = [(''number'', PyInt 1)], inst_dict = []\<rparr> ''number''
     = Inr \<lparr>inst_cls = Model ctor \<lparr>strict = False, mutable = True, encoders = enc, decoders = dec\<rparr>,
        inst_values = [(''number'', UNSET)], inst_dict = []\<rparr>
   \<and> Squema_delitem
       \<lparr>inst_cls = Model ctor \<lparr>strict = False, mutable = False, encoders = enc, decoders = dec\<rparr>,
        inst_values = [(''number'', PyInt 1)], inst_dict = []\<rparr> ''number''
     = Inl (Immutable ''Model'')"
proof (intro allI)
  fix ctor enc dec
  let ?c = "\<lambda>m. Model ctor \<lparr>strict = False, mutable = m, encoders = enc, decoders = dec\<rparr>"
  let ?self = "\<lambda>m. \<lparr>inst_cls = ?c m, inst_values = [(''number'', PyInt 1)], inst_dict = []\<rparr>"
  have a: "od_keys (inst_values (?self m)) = od_keys (cls_fields (inst_cls (?self m)))" for m
    by (simp add: Model_def od_keys_def)
  have b: "''number'' \<in> set (od_keys (cls_fields (inst_cls (?self m))))" for m
    by (simp add: Model_def od_keys_def)
  have d: "Squema_delitem (?self True) ''number''
      = Inr \<lparr>inst_cls = ?c True, inst_values = [(''number'', UNSET)], inst_dict = []\<rparr>"
    by (simp add: Squema_delitem_def Model_def)
  have e: "Squema_delitem (?self False) ''number'' = Inl (Immutable ''Model'')"
    using delitem_field[OF a b, of False] by (simp add: Model_def cls_name_def)
  show "od_keys (inst_values (?self True)) = od_keys (cls_fields (inst_cls (?self True)))
      \<and> ''number'' \<in> set (od_keys (cls_fields (inst_cls (?self True))))
      \<and> Squema_delitem (?self True) ''number''
        = Inr \<lparr>inst_cls = ?c True, inst_values = [(''number'', UNSET)], inst_dict = []\<rparr>
      \<and> Squema_delitem (?self False) ''number'' = Inl (Immutable ''Model'')"
    using a[of True] b[of True] d e by blast
qed


subsection \<open>Equality and hashing\<close>

lemma digit_char_inj: "n < 10 \<Longrightarrow> m < 10 \<Longrightarrow> digit_char n = digit_char m \<Longrightarrow> n = m"
proof -
  assume n: "n < 10" and m: "m < 10" and e: "digit_char n = digit_char m"
  have d: "distinct ''0123456789abcdef''" by simp
  have "n < length ''0123456789abcdef''" and "m < length ''0123456789abcdef''"
    using n m by simp_all
  with d e show "n = m"
    unfolding digit_char_def by (simp only: nth_eq_iff_index_eq)
qed

lemma dec_nat_nonempty: "dec_nat n \<noteq> []"
  by (subst dec_nat.simps) simp

lemma dec_nat_inj: "dec_nat n = dec_nat m \<Longrightarrow> n = m"
proof (induction n arbitrary: m rule: dec_nat.induct)
  case (1 n)
  show ?case
  proof (cases "n < 10")
    case True
    then have n1: "dec_nat n = [digit_char n]" by (subst dec_nat.simps) simp
    show ?thesis
    proof (cases "m < 10")
      case True
      then have "dec_nat m = [digit_char m]" by (subst dec_nat.simps) simp
      with n1 "1.prems" have "digit_char n = digit_char m" by simp
      with \<open>n < 10\<close> True show ?thesis by (rule digit_char_inj)
    next
      case False
      then have "dec_nat m = dec_nat (m div 10) @ [digit_char (m mod 10)]"
        by (subst dec_nat.simps) simp
      with n1 "1.prems" dec_nat_nonempty[of "m div 10"] show ?thesis by simp
    qed
  next
    case False
    then have n2: "dec_nat n = dec_nat (n div 10) @ [digit_char (n mod 10)]"
      by (subst dec_nat.simps) simp
    show ?thesis
    proof (cases "m < 10")
      case True
      then have "dec_nat m = [digit_char m]" by (subst dec_nat.simps) simp
      with n2 "1.prems" dec_nat_nonempty[of "n div 10"] show ?thesis by simp
    next
      case m: False
      then have "dec_nat m = dec_nat (m div 10) @ [digit_char (m mod 10)]"
        by (subst dec_nat.simps) simp
      with n2 "1.prems" have a: "dec_nat (n div 10) = dec_nat (m div 10)"
        and b: "digit_char (n mod 10) = digit_char (m mod 10)"
        by simp_all
      from "1.IH"[OF False a] have q: "n div 10 = m div 10" .
      have r: "n mod 10 = m mod 10"
        using b by (intro digit_char_inj) simp_all
      from q r show ?thesis by (metis div_mult_mod_eq)
    qed
  qed
qed

lemma model_repr:
  "Squema_repr
     \<lparr>inst_cls = Model ctor \<lparr>strict = False, mutable = m, encoders = enc, decoders = dec\<rparr>,
      inst_values = [(''number'', PyInt (int n))], inst_dict = []\<rparr>
   = ''Model(number='' @ dec_nat n @ '')''"
  by (simp add: Squema_repr_def Squema_items_def items_of_def Model_def cls_name_def int_repr_def)

lemma model_call:
  "Squema_call (Model ctor \<lparr>strict = False, mutable = m, encoders = enc, decoders = dec\<rparr>)
     [PyInt i] []
   = Inr \<lparr>inst_cls = Model ctor \<lparr>strict = False, mutable = m, encoders = enc, decoders = dec\<rparr>,
          inst_values = [(''number'', PyInt i)], inst_dict = []\<rparr>"
  by (simp add: Squema_call_def binds_self_def Squema_init.simps Squema_getval.simps sample_simps)

lemma hash_collision:
  fixes f :: "nat \<Rightarrow> 64 word"
  shows "\<exists>i j. j < i \<and> i \<le> 2 ^ 64 \<and> f i = f j"
proof -
  have "card (f ` {..2 ^ 64}) \<le> card (UNIV :: 64 word set)"
    by (rule card_mono) simp_all
  also have "\<dots> = 2 ^ 64"
    by (simp add: card_word)
  finally have "card (f ` {..2 ^ 64}) < card {..(2::nat) ^ 64}"
    by simp
  then have "\<not> inj_on f {..2 ^ 64}"
    by (rule pigeonhole)
  then obtain x y where x: "x \<le> 2 ^ 64" and y: "y \<le> 2 ^ 64" and ne: "x \<noteq> y"
    and e: "f x = f y"
    by (auto simp: inj_on_def)
  show ?thesis
  proof (cases "x < y")
    case True
    with y e show ?thesis by metis
  next
    case False
    with ne have "y < x" by simp
    with x e show ?thesis by metis
  qed
qed

text \<open>
  C6, as stated, fails: \<^verbatim>\<open>__eq__\<close> compares the hashes of the two textual forms, and a
  hash is a 64-bit word. Whatever the string hash is, two of the instances
  \<^verbatim>\<open>Model(0)\<close>, \<^verbatim>\<open>Model(1)\<close>, ..., \<^verbatim>\<open>Model(2 ** 64)\<close> of the non-strict class have textual
  forms of equal hash: they compare equal and their textual forms differ.
\<close>

theorem eq_without_same_repr:
  "\<forall>h ctor mu enc dec. \<exists>i j. j < i \<and> i \<le> 2 ^ 64
   \<and> Squema_call (Model ctor \<lparr>strict = False, mutable = mu, encoders = enc, decoders = dec\<rparr>)
        [PyInt (int i)] []
     = Inr \<lparr>inst_cls = Model ctor \<lparr>strict = False, mutable = mu, encoders = enc, decoders = dec\<rparr>,
            inst_values = [(''number'', PyInt (int i))], inst_dict = []\<rparr>
   \<and> Squema_call (Model ctor \<lparr>strict = False, mutable = mu, encoders = enc, decoders = dec\<rparr>)
        [PyInt (int j)] []
     = Inr \<lparr>inst_cls = Model ctor \<lparr>strict = False, mutable = mu, encoders = enc, decoders = dec\<rparr>,
            inst_values = [(''number'', PyInt (int j))], inst_dict = []\<rparr>
   \<and> Squema_eq h
       \<lparr>inst_cls = Model ctor \<lparr>strict = False, mutable = mu, encoders = enc, decoders = dec\<rparr>,
        inst_values = [(''number'', PyInt (int i))], inst_dict = []\<rparr>
       \<lparr>inst_cls = Model ctor \<lparr>strict = False, mutable = mu, encoders = enc, decoders = dec\<rparr>,
        inst_values = [(''number'', PyInt (int j))], inst_dict = []\<rparr>
   \<and> Squema_repr
       \<lparr>inst_cls = Model ctor \<lparr>strict = False, mutable = mu, encoders = enc, decoders = dec\<rparr>,
        inst_values = [(''number'', PyInt (int i))], inst_dict = []\<rparr>
     \<noteq> Squema_repr
       \<lparr>inst_cls = Model ctor \<lparr>strict = False, mutable = mu, encoders = enc, decoders = dec\<rparr>,
        inst_values = [(''number'', PyInt (int j))], inst_dict = []\<rparr>"
proof (intro allI)
  fix h :: "string \<Rightarrow> 64 word" and ctor mu enc dec
  let ?c = "Model ctor \<lparr>strict = False, mutable = mu, encoders = enc, decoders = dec\<rparr>"
  let ?a = "\<lambda>n. \<lparr>inst_cls = ?c, inst_values = [(''number'', PyInt (int n))], inst_dict = []\<rparr>"
  obtain i j where ji: "j < i" and i: "i \<le> 2 ^ 64"
    and hh: "h (Squema_repr (?a i)) = h (Squema_repr (?a j))"
    using hash_collision[of "\<lambda>n. h (Squema_repr (?a n))"] by blast
  have ne: "Squema_repr (?a i) \<noteq> Squema_repr (?a j)"
    using ji dec_nat_inj[of i j] by (auto simp: model_repr)
  have e: "Squema_eq h (?a i) (?a j)"
    using hh by (simp add: Squema_eq_def Squema_hash_def)
  have ci: "Squema_call ?c [PyInt (int i)] [] = Inr (?a i)"
    and cj: "Squema_call ?c [PyInt (int j)] [] = Inr (?a j)"
    by (rule model_call)+
  show "\<exists>i j. j < i \<and> i \<le> 2 ^ 64
      \<and> Squema_call ?c [PyInt (int i)] [] = Inr (?a i)
      \<and> Squema_call ?c [PyInt (int j)] [] = Inr (?a j)
      \<and> Squema_eq h (?a i) (?a j) \<and> Squema_repr (?a i) \<noteq> Squema_repr (?a j)"
    using ji i ci cj e ne by blast
qed

text \<open>
  C6, amended. Two instances are equal iff their classes are the same class object and
  the hashes of their textual forms are equal. Instances of the same class with identical
  textual forms (in particular with the same items in the same order and the same
  representation of each value) are equal, equal instances have equal hashes, equality
  is symmetric, and the textual form is the representation of the instance as a value.
\<close>

theorem eq_by_hash_of_repr:
  "(Squema_eq h a b \<longleftrightarrow>
      cls_id (inst_cls a) = cls_id (inst_cls b) \<and> h (Squema_repr a) = h (Squema_repr b))
   \<and> (cls_id (inst_cls a) = cls_id (inst_cls b) \<and> Squema_repr a = Squema_repr b
        \<longrightarrow> Squema_eq h a b)
   \<and> (inst_cls a = inst_cls b
        \<and> map (\<lambda>(k, v). (k, py_repr v)) (Squema_items a)
          = map (\<lambda>(k, v). (k, py_repr v)) (Squema_items b) \<longrightarrow> Squema_eq h a b)
   \<and> (Squema_eq h a b \<longrightarrow> Squema_hash h a = Squema_hash h b)
   \<and> (Squema_eq h a b \<longleftrightarrow> Squema_eq h b a)
   \<and> Squema_repr a = py_repr (pyval_of a)"
proof -
  have r: "Squema_repr x = cls_name (inst_cls x) @ ''('' @
      join '', '' (map (\<lambda>(k, r). k @ ''='' @ r) (map (\<lambda>(k, v). (k, py_repr v)) (Squema_items x)))
      @ '')''" for x
    by (simp add: Squema_repr_def case_prod_unfold comp_def)
  have i: "inst_cls a = inst_cls b
        \<and> map (\<lambda>(k, v). (k, py_repr v)) (Squema_items a)
          = map (\<lambda>(k, v). (k, py_repr v)) (Squema_items b) \<longrightarrow> Squema_repr a = Squema_repr b"
    by (simp only: r) simp
  have p: "Squema_repr a = py_repr (pyval_of a)"
    by (simp add: Squema_repr_def pyval_of_def Squema_items_def cls_name_def)
  show ?thesis
    using i p by (auto simp: Squema_eq_def Squema_hash_def)
qed

theorem eq_by_hash_of_repr_witness:
  "\<forall>h ctor cfg.
     Squema_eq h
       \<lparr>inst_cls = Model ctor cfg, inst_values = [(''number'', PyInt 1)], inst_dict = []\<rparr>
       \<lparr>inst_cls = Model ctor cfg, inst_values = [(''number'', PyInt 1)],
        inst_dict = [(''attr'', PyBool True)]\<rparr>
   \<and> Squema_hash h
       \<lparr>inst_cls = Model ctor cfg, inst_values = [(''number'', PyInt 1)], inst_dict = []\<rparr>
     = Squema_hash h
       \<lparr>inst_cls = Model ctor cfg, inst_values = [(''number'', PyInt 1)],
        inst_dict = [(''attr'', PyBool True)]\<rparr>"
proof (intro allI)
  fix h :: "string \<Rightarrow> 64 word" and ctor cfg
  let ?a = "\<lparr>inst_cls = Model ctor cfg, inst_values = [(''number'', PyInt 1)], inst_dict = []\<rparr>"
  let ?b = "\<lparr>inst_cls = Model ctor cfg, inst_values = [(''number'', PyInt 1)],
        inst_dict = [(''attr'', PyBool True)]\<rparr>"
  note t = eq_by_hash_of_repr[of h ?a ?b]
  have c: "cls_id (inst_cls ?a) = cls_id (inst_cls ?b)" by simp
  have r: "Squema_repr ?a = Squema_repr ?b"
    by (simp add: Squema_repr_def Squema_items_def)
  from t c r have e: "Squema_eq h ?a ?b" by blast
  with t have "Squema_hash h ?a = Squema_hash h ?b" by blast
  with e show "Squema_eq h ?a ?b \<and> Squema_hash h ?a = Squema_hash h ?b" by simp
qed

end
